theory Spec2Isabelle
  imports Main
begin

section \<open>The tmblock filter (libavfilter/vf\_tmblock.c)\<close>

text \<open>
  The filter adapts the watermark library libtmblock to libavfilter. It has two video
  inputs (pad 0 "input", pad 1 "logo") and one video output. All integers of the file are
  C \<open>int\<close>s that are only assigned, compared and passed on; no arithmetic is done on
  them, so they are modelled as \<open>int\<close>.

  Frames live on the heap and are handed around by pointer; two pointers may name the same
  frame, so a frame is identified by its address and the heap maps addresses to frames.
  The heap is total and keeps the contents of a released frame: a release is an entry of
  the log, and what C leaves undefined after it (a second release, a later read) is not
  a fault of the model but visible in the log.
\<close>

subsection \<open>Data\<close>

type_synonym addr = nat
type_synonym AVRational = "int \<times> int"

text \<open>
  The fields of \<open>AVFrame\<close> that the filter and the spec's Frame name: \<open>linesize0\<close> and
  \<open>data0\<close> are \<open>linesize[0]\<close> and \<open>data[0]\<close>; the timestamp, the sample aspect ratio
  and the frame rate are the metadata the spec's data model gives a Frame.
\<close>

record AVFrame =
  width :: int
  height :: int
  linesize0 :: int
  format :: int
  data0 :: addr
  pts :: int
  sample_aspect_ratio :: AVRational
  frame_rate :: AVRational

text \<open>
  \<open>TM_Picture\<close> of tmblock.h. Its mode is one of the library's tags or the value \<open>-1\<close>
  that \<open>copy_AVFrame_to_TM_Picture\<close> uses for "no tag"; \<open>TM_MINUS_1\<close> stands for that
  value, which is taken to differ from both tags (the source's assertion relies on it).
\<close>

datatype TM_Mode = TM_RGB | TM_RGBA | TM_MINUS_1

datatype TM_Layout = TM_PACKED

record TM_Picture =
  pic_height :: int
  pic_width :: int
  pic_linesize :: int
  pic_mode :: TM_Mode
  pic_ptr :: addr

text \<open>The three operations of libtmblock, as the function pointers \<open>func\<close> can hold.\<close>

datatype TM_Function = TM_embed | TM_pre | TM_post

text \<open>\<open>TMFunctionType\<close>: a C enumeration, stored as an integer by the option system.\<close>

definition FUNC_EMBED :: int where "FUNC_EMBED = 0"
definition FUNC_PRE :: int where "FUNC_PRE = 1"
definition FUNC_POST :: int where "FUNC_POST = 2"
definition NB_FUNC :: int where "NB_FUNC = 3"

text \<open>
  \<open>FFFrameSync\<close> is declared in framesync.h, which is not part of the sources. The filter
  touches one field, the event callback \<open>on_event\<close> (only \<open>process_frame\<close> is ever stored
  there); everything else is the helper's own state, of an arbitrary type \<open>'o\<close>.
\<close>

datatype on_event_fn = process_frame_fn

record 'o FFFrameSync =
  on_event :: "on_event_fn option"
  sync_state :: 'o

text \<open>
  \<open>TMBlockContext\<close>. A \<open>struct FFBufQueue\<close> (bufferqueue.h) is a FIFO of frame pointers,
  modelled as the list of the queued frames' addresses, oldest first. A null function
  pointer is \<open>None\<close>. The pictures \<open>input\<close>, \<open>logo\<close> and \<open>output\<close> are the fields
  \<open>input_pic\<close>, \<open>logo_pic\<close> and \<open>output_pic\<close>.
\<close>

record 'o TMBlockContext =
  offset_x :: int
  offset_y :: int
  input_pic :: TM_Picture
  logo_pic :: TM_Picture
  output_pic :: TM_Picture
  queue_input :: "addr list"
  queue_logo :: "addr list"
  func_type :: int
  func :: "TM_Function option"
  fs :: "'o FFFrameSync"

record AVFilterLink =
  link_w :: int
  link_h :: int
  link_time_base :: AVRational
  link_sample_aspect_ratio :: AVRational
  link_frame_rate :: AVRational
  link_format :: int
  in_formats :: "int list option"
  out_formats :: "int list option"

text \<open>
  What the filter does to the outside is kept in a log: each frame obtained from
  \<open>ff_get_video_buffer\<close>, each call of the bound operation (with its arguments and the
  status it returned), each frame passed downstream with \<open>ff_filter_frame\<close> (with the
  returned status) and each frame released with \<open>av_frame_free\<close>.
\<close>

datatype event =
    Allocate addr
  | Apply TM_Function TM_Picture TM_Picture int int TM_Picture TM_Layout int
  | Forward addr int
  | Release addr

text \<open>
  The state a callback of the filter works on: the \<open>AVFilterContext\<close> (its private
  context \<open>priv\<close>, the links \<open>inputs[0]\<close>, \<open>inputs[1]\<close> and \<open>outputs[0]\<close> of the
  statically declared pads), the frame heap and the log.
\<close>

record 'o filter_state =
  priv :: "'o TMBlockContext"
  inputs0 :: AVFilterLink
  inputs1 :: AVFilterLink
  outputs0 :: AVFilterLink
  frames :: "addr \<Rightarrow> AVFrame"
  trace :: "event list"

subsection \<open>The environment\<close>

text \<open>
  Constants and functions the file uses but does not define are parameters of the model:
  the two pixel format constants of libavutil/pixfmt.h, \<open>AVERROR(ENOMEM)\<close>, the framesync
  helper, the format list helpers, the downstream link and the operations of libtmblock
  (\<open>tm_call f\<close> is the status the operation \<open>f\<close> returns on its arguments; its pixel
  processing is outside the filter). \<open>new_frame\<close> is what the buffer pool hands out at the
  next allocation: nothing, or the address of a frame and its initial contents.

  \<open>ff_framesync_get_frame fs in get\<close> returns the status, the frame stored through the
  result pointer and the helper's new state.
\<close>

record 'o env =
  AV_PIX_FMT_RGB24 :: int
  AV_PIX_FMT_RGBA :: int
  AVERROR_ENOMEM :: int
  ff_framesync_get_frame :: "'o FFFrameSync \<Rightarrow> nat \<Rightarrow> nat \<Rightarrow> int \<times> addr \<times> 'o FFFrameSync"
  ff_framesync_configure :: "'o FFFrameSync \<Rightarrow> int \<times> 'o FFFrameSync"
  ff_make_format_list :: "int list \<Rightarrow> int list option"
  ff_formats_ref :: "int list \<Rightarrow> int list option \<Rightarrow> int \<times> int list option"
  new_frame :: "(addr \<times> AVFrame) option"
  ff_filter_frame :: "AVFilterLink \<Rightarrow> addr \<Rightarrow> int"
  tm_call :: "TM_Function \<Rightarrow> TM_Picture \<Rightarrow> TM_Picture \<Rightarrow> int \<Rightarrow> int \<Rightarrow> TM_Picture \<Rightarrow> TM_Layout \<Rightarrow> int"

subsection \<open>Helpers of libavutil and libavfilter\<close>

definition ff_get_video_buffer ::
  "'o env \<Rightarrow> AVFilterLink \<Rightarrow> int \<Rightarrow> int \<Rightarrow> (addr \<times> AVFrame) option" where
  \<comment> \<open>Modelled from the spec: \<open>ff_get_video_buffer\<close> (libavfilter/video.c) is not part of the
      sources. The Output Allocator "allocates a buffer sized to [the given] width/height
      with the output stream's negotiated layout", or fails (a null pointer).\<close>
  "ff_get_video_buffer e link w h =
     (case new_frame e of
        None \<Rightarrow> None
      | Some (p, f) \<Rightarrow> Some (p, f\<lparr>width := w, height := h, format := link_format link\<rparr>))"

definition av_frame_copy_props :: "AVFrame \<Rightarrow> AVFrame \<Rightarrow> AVFrame" where
  \<comment> \<open>Modelled from the spec: \<open>av_frame_copy_props\<close> (libavutil/frame.c) is not part of the
      sources. It "copies referenceFrame's timestamp, sample-aspect-ratio, and frame-rate
      metadata onto it (but not pixel data)". The first argument is the destination.\<close>
  "av_frame_copy_props dst src =
     dst\<lparr>pts := pts src, sample_aspect_ratio := sample_aspect_ratio src,
         frame_rate := frame_rate src\<rparr>"

definition av_frame_free :: "addr option \<Rightarrow> 'o filter_state \<Rightarrow> 'o filter_state" where
  \<comment> \<open>Modelled from the spec: \<open>av_frame_free\<close> (libavutil/frame.c) is not part of the
      sources. It releases the Frame its argument points to; a null pointer is left alone.\<close>
  "av_frame_free p s =
     (case p of None \<Rightarrow> s | Some a \<Rightarrow> s\<lparr>trace := trace s @ [Release a]\<rparr>)"

primrec ff_bufqueue_discard_all :: "addr list \<Rightarrow> 'o filter_state \<Rightarrow> addr list \<times> 'o filter_state" where
  \<comment> \<open>Modelled from the spec: \<open>ff_bufqueue_discard_all\<close> (bufferqueue.h) is not part of the
      sources. A Pending-Frame Queue is "discarded wholesale on teardown", "all contained
      Frames released": the frames are taken from the queue in order and released, and the
      queue is left empty.\<close>
  "ff_bufqueue_discard_all [] s = ([], s)"
| "ff_bufqueue_discard_all (buf # queue) s = ff_bufqueue_discard_all queue (av_frame_free (Some buf) s)"

subsection \<open>The filter's functions\<close>

datatype fault = Assertion_failed | Null_function_call

text \<open>
  \<open>copy_AVFrame_to_TM_Picture\<close>. The second condition of the nested conditional is the
  constant \<open>AV_PIX_FMT_RGB24\<close> itself, which C reads as "not zero". A failed \<open>assert\<close>
  aborts; it is the fault \<open>Assertion_failed\<close> (the spec's UnsupportedLayout).
\<close>

definition copy_AVFrame_to_TM_Picture :: "'o env \<Rightarrow> TM_Picture \<Rightarrow> AVFrame \<Rightarrow> fault + TM_Picture" where
  "copy_AVFrame_to_TM_Picture e picture frame =
     (let picture = picture\<lparr>pic_height := height frame\<rparr>;
          picture = picture\<lparr>pic_width := width frame\<rparr>;
          picture = picture\<lparr>pic_linesize := linesize0 frame\<rparr>;
          picture = picture\<lparr>pic_mode :=
            (if format frame = AV_PIX_FMT_RGBA e then TM_RGBA
             else if AV_PIX_FMT_RGB24 e \<noteq> 0 then TM_RGB
             else TM_MINUS_1)\<rparr>
      in if pic_mode picture = TM_MINUS_1 then Inl Assertion_failed
         else Inr (picture\<lparr>pic_ptr := data0 frame\<rparr>))"

text \<open>
  \<open>draw_frame\<close> fills the three pictures of the context from the three frames and calls
  the bound operation. Calling through a null \<open>func\<close> is the fault \<open>Null_function_call\<close>.
\<close>

definition draw_frame ::
  "'o env \<Rightarrow> addr \<Rightarrow> addr \<Rightarrow> addr \<Rightarrow> 'o filter_state \<Rightarrow> fault + (int \<times> 'o filter_state)" where
  "draw_frame e input_buf logo_buf output_buf s =
     (let tmblock = priv s in
      case copy_AVFrame_to_TM_Picture e (input_pic tmblock) (frames s input_buf) of
        Inl x \<Rightarrow> Inl x
      | Inr pin \<Rightarrow>
      (case copy_AVFrame_to_TM_Picture e (logo_pic tmblock) (frames s logo_buf) of
        Inl x \<Rightarrow> Inl x
      | Inr plogo \<Rightarrow>
      (case copy_AVFrame_to_TM_Picture e (output_pic tmblock) (frames s output_buf) of
        Inl x \<Rightarrow> Inl x
      | Inr pout \<Rightarrow>
      (case func tmblock of
        None \<Rightarrow> Inl Null_function_call
      | Some f \<Rightarrow>
          let tmblock = tmblock\<lparr>input_pic := pin, logo_pic := plogo, output_pic := pout\<rparr>;
              ret = tm_call e f pin plogo (offset_x tmblock) (offset_y tmblock) pout TM_PACKED
          in Inr (ret,
               s\<lparr>priv := tmblock,
                 trace := trace s @
                   [Apply f pin plogo (offset_x tmblock) (offset_y tmblock) pout TM_PACKED ret]\<rparr>)))))"

text \<open>
  The code after the label \<open>out\<close> of \<open>process_frame\<close>: the three local frame pointers
  are freed in this order. \<open>output_buf\<close> may be null there; the other two are not.
\<close>

definition process_frame_out ::
  "addr option \<Rightarrow> addr \<Rightarrow> addr \<Rightarrow> 'o filter_state \<Rightarrow> 'o filter_state" where
  "process_frame_out output_buf input_buf logo_buf s =
     av_frame_free (Some logo_buf) (av_frame_free (Some input_buf) (av_frame_free output_buf s))"

text \<open>
  \<open>process_frame\<close>, the callback of a synchronization event. Both calls of
  \<open>ff_framesync_get_frame\<close> pass the stream index \<open>0\<close> and \<open>get = 0\<close>, as the source does.
  After \<open>ff_filter_frame\<close> control reaches \<open>out\<close> whatever the status is.
\<close>

definition process_frame :: "'o env \<Rightarrow> 'o filter_state \<Rightarrow> fault + (int \<times> 'o filter_state)" where
  "process_frame e s =
     (let output_link = outputs0 s;
          (ret, input_buf, fs1) = ff_framesync_get_frame e (fs (priv s)) 0 0;
          s = s\<lparr>priv := (priv s)\<lparr>fs := fs1\<rparr>\<rparr>
      in if ret < 0 then Inr (ret, s)
      else
        let (ret, logo_buf, fs2) = ff_framesync_get_frame e (fs (priv s)) 0 0;
            s = s\<lparr>priv := (priv s)\<lparr>fs := fs2\<rparr>\<rparr>
        in if ret < 0 then Inr (ret, s)
        else
          (case ff_get_video_buffer e output_link (link_w output_link) (link_h output_link) of
             None \<Rightarrow> Inr (AVERROR_ENOMEM e, process_frame_out None input_buf logo_buf s)
           | Some (output_buf, fresh) \<Rightarrow>
               let s = s\<lparr>frames := (frames s)(output_buf := fresh),
                         trace := trace s @ [Allocate output_buf]\<rparr>;
                   s = s\<lparr>frames := (frames s)
                         (output_buf := av_frame_copy_props (frames s output_buf) (frames s input_buf))\<rparr>
               in (case draw_frame e input_buf logo_buf output_buf s of
                     Inl x \<Rightarrow> Inl x
                   | Inr (ret, s) \<Rightarrow>
                       if ret \<noteq> 0
                       then Inr (ret, process_frame_out (Some output_buf) input_buf logo_buf s)
                       else
                         let ret = ff_filter_frame e output_link output_buf;
                             s = s\<lparr>trace := trace s @ [Forward output_buf ret]\<rparr>
                         in Inr (ret, process_frame_out (Some output_buf) input_buf logo_buf s))))"

text \<open>
  \<open>init\<close>: the \<open>switch\<close> over \<open>func_type\<close> in the order of its cases; the default case
  returns \<open>1\<close> at once.
\<close>

definition init :: "'o env \<Rightarrow> 'o filter_state \<Rightarrow> int \<times> 'o filter_state" where
  "init e s =
     (let tmblock = priv s;
          bound =
            (if func_type tmblock = FUNC_EMBED then Some TM_embed
             else if func_type tmblock = FUNC_POST then Some TM_post
             else if func_type tmblock = FUNC_PRE then Some TM_pre
             else None)
      in case bound of
           None \<Rightarrow> (1, s)
         | Some f \<Rightarrow>
             let tmblock = tmblock\<lparr>func := Some f\<rparr>;
                 tmblock = tmblock\<lparr>fs := (fs tmblock)\<lparr>on_event := Some process_frame_fn\<rparr>\<rparr>;
                 (ret, fs1) = ff_framesync_configure e (fs tmblock)
             in (ret, s\<lparr>priv := tmblock\<lparr>fs := fs1\<rparr>\<rparr>))"

definition uninit :: "'o filter_state \<Rightarrow> 'o filter_state" where
  "uninit s =
     (let (q, s) = ff_bufqueue_discard_all (queue_input (priv s)) s;
          s = s\<lparr>priv := (priv s)\<lparr>queue_input := q\<rparr>\<rparr>;
          (q, s) = ff_bufqueue_discard_all (queue_logo (priv s)) s
      in s\<lparr>priv := (priv s)\<lparr>queue_logo := q\<rparr>\<rparr>)"

definition config_output :: "'o filter_state \<Rightarrow> int \<times> 'o filter_state" where
  "config_output s =
     (let input_link = inputs0 s;
          output_link = outputs0 s;
          output_link = output_link\<lparr>link_w := link_w input_link\<rparr>;
          output_link = output_link\<lparr>link_h := link_h input_link\<rparr>;
          output_link = output_link\<lparr>link_time_base := link_time_base input_link\<rparr>;
          output_link = output_link\<lparr>link_sample_aspect_ratio := link_sample_aspect_ratio input_link\<rparr>;
          output_link = output_link\<lparr>link_frame_rate := link_frame_rate input_link\<rparr>
      in (0, s\<lparr>outputs0 := output_link\<rparr>))"

text \<open>
  \<open>query_formats\<close>: the format lists (the arrays without their terminator) are made,
  then referenced from the three links, stopping at the first failure. The memory of the
  lists themselves is not modelled.
\<close>

definition query_formats :: "'o env \<Rightarrow> 'o filter_state \<Rightarrow> int \<times> 'o filter_state" where
  "query_formats e s =
     (case ff_make_format_list e [AV_PIX_FMT_RGB24 e] of
        None \<Rightarrow> (AVERROR_ENOMEM e, s)
      | Some io_formats \<Rightarrow>
      (case ff_make_format_list e [AV_PIX_FMT_RGBA e] of
        None \<Rightarrow> (AVERROR_ENOMEM e, s)
      | Some logo_formats \<Rightarrow>
          let (ret, r) = ff_formats_ref e io_formats (out_formats (inputs0 s));
              s = s\<lparr>inputs0 := (inputs0 s)\<lparr>out_formats := r\<rparr>\<rparr>
          in if ret < 0 then (ret, s)
          else
            let (ret, r) = ff_formats_ref e logo_formats (out_formats (inputs1 s));
                s = s\<lparr>inputs1 := (inputs1 s)\<lparr>out_formats := r\<rparr>\<rparr>
            in if ret < 0 then (ret, s)
            else
              let (ret, r) = ff_formats_ref e io_formats (in_formats (outputs0 s));
                  s = s\<lparr>outputs0 := (outputs0 s)\<lparr>in_formats := r\<rparr>\<rparr>
              in if ret < 0 then (ret, s) else (0, s)))"

subsection \<open>The option table\<close>

text \<open>
  \<open>tmblock_options\<close>. \<open>OFFSET(x)\<close> names a field of the context; the named constants
  \<open>embed\<close>, \<open>pre\<close> and \<open>post\<close> have offset \<open>0\<close> and the unit \<open>func\<close>. The flags,
  the same for every entry, are left out.
\<close>

datatype opt_type = AV_OPT_TYPE_INT | AV_OPT_TYPE_CONST

datatype opt_offset = OFFSET_offset_x | OFFSET_offset_y | OFFSET_func_type | OFFSET_0

definition INT_MIN :: int where "INT_MIN = - (2 ^ 31)"
definition INT_MAX :: int where "INT_MAX = 2 ^ 31 - 1"

record AVOption =
  opt_name :: string
  opt_help :: string
  opt_offset :: opt_offset
  opt_kind :: opt_type
  default_val :: int
  opt_min :: int
  opt_max :: int
  opt_unit :: "string option"

definition tmblock_options :: "AVOption list" where
  "tmblock_options =
     [\<lparr>opt_name = ''x'', opt_help = ''set offset at x direction'', opt_offset = OFFSET_offset_x,
       opt_kind = AV_OPT_TYPE_INT, default_val = 0, opt_min = INT_MIN, opt_max = INT_MAX,
       opt_unit = None\<rparr>,
      \<lparr>opt_name = ''y'', opt_help = ''set offset at y direction'', opt_offset = OFFSET_offset_y,
       opt_kind = AV_OPT_TYPE_INT, default_val = 0, opt_min = INT_MIN, opt_max = INT_MAX,
       opt_unit = None\<rparr>,
      \<lparr>opt_name = ''func'', opt_help = ''set func'', opt_offset = OFFSET_func_type,
       opt_kind = AV_OPT_TYPE_INT, default_val = FUNC_EMBED, opt_min = 0, opt_max = NB_FUNC - 1,
       opt_unit = Some ''func''\<rparr>,
      \<lparr>opt_name = ''embed'', opt_help = ''embed watermark'', opt_offset = OFFSET_0,
       opt_kind = AV_OPT_TYPE_CONST, default_val = FUNC_EMBED, opt_min = INT_MIN,
       opt_max = INT_MAX, opt_unit = Some ''func''\<rparr>,
      \<lparr>opt_name = ''pre'', opt_help = ''remove watermark by pre-processing'', opt_offset = OFFSET_0,
       opt_kind = AV_OPT_TYPE_CONST, default_val = FUNC_PRE, opt_min = INT_MIN,
       opt_max = INT_MAX, opt_unit = Some ''func''\<rparr>,
      \<lparr>opt_name = ''post'', opt_help = ''remove watermark by post-processing'', opt_offset = OFFSET_0,
       opt_kind = AV_OPT_TYPE_CONST, default_val = FUNC_POST, opt_min = INT_MIN,
       opt_max = INT_MAX, opt_unit = Some ''func''\<rparr>]"

fun store_int :: "opt_offset \<Rightarrow> int \<Rightarrow> 'o TMBlockContext \<Rightarrow> 'o TMBlockContext" where
  "store_int OFFSET_offset_x v c = c\<lparr>offset_x := v\<rparr>"
| "store_int OFFSET_offset_y v c = c\<lparr>offset_y := v\<rparr>"
| "store_int OFFSET_func_type v c = c\<lparr>func_type := v\<rparr>"
| "store_int OFFSET_0 v c = c"

primrec av_opt_set_defaults :: "AVOption list \<Rightarrow> 'o TMBlockContext \<Rightarrow> 'o TMBlockContext" where
  \<comment> \<open>Modelled from the spec: the option system (libavutil/opt.c) is not part of the sources.
      Configuration is "simple key-value binding" with the declared defaults ("default =
      embed"): every integer option's default is stored at its offset; a named constant
      stores nothing.\<close>
  "av_opt_set_defaults [] c = c"
| "av_opt_set_defaults (opt # opts) c =
     av_opt_set_defaults opts
       (case opt_kind opt of
          AV_OPT_TYPE_INT \<Rightarrow> store_int (opt_offset opt) (default_val opt) c
        | AV_OPT_TYPE_CONST \<Rightarrow> c)"

subsection \<open>Reachable states\<close>

text \<open>
  The states of a filter instance: libavfilter allocates the private context zeroed (both
  queues empty), and from then on the state changes only through the filter's callbacks,
  in any order and in any environment. A callback that stops with a fault ends the run.
\<close>

inductive callback :: "'o filter_state \<Rightarrow> 'o filter_state \<Rightarrow> bool" where
  by_query_formats: "callback s (snd (query_formats e s))"
| by_init: "callback s (snd (init e s))"
| by_config_output: "callback s (snd (config_output s))"
| by_process_frame: "process_frame e s = Inr (ret, s') \<Longrightarrow> callback s s'"
| by_uninit: "callback s (uninit s)"

inductive reachable :: "'o filter_state \<Rightarrow> bool" where
  fresh: "queue_input (priv s) = [] \<Longrightarrow> queue_logo (priv s) = [] \<Longrightarrow> reachable s"
| step: "reachable s \<Longrightarrow> callback s s' \<Longrightarrow> reachable s'"

text \<open>
  The states in which the output link has been configured: the state \<open>config_output\<close>
  leaves, and every state the callbacks reach from there.
\<close>

inductive configured :: "'o filter_state \<Rightarrow> bool" where
  config: "configured (snd (config_output s))"
| later: "configured s \<Longrightarrow> callback s s' \<Longrightarrow> configured s'"

text \<open>The events a callback added to the log, from the state before and the state after.\<close>

definition events_of :: "'o filter_state \<Rightarrow> 'o filter_state \<Rightarrow> event list" where
  "events_of s s' = drop (length (trace s)) (trace s')"

subsection \<open>Delivery of synchronization events\<close>




subsection \<open>A concrete run\<close>

text \<open>
  The scenario of the spec: stream 0 delivers a 4x4 RGB24 frame (at address 1, pixels at
  101) and the logo stream a 2x2 RGBA frame (at address 2, pixels at 102), both with
  timestamp 0; the offsets are (1, 1) and the operation is embed. The framesync helper's
  state is the pair of the current frames of stream 0 and stream 1, and
  \<open>ff_framesync_get_frame\<close> returns the current frame of the stream asked for. The pool
  hands out the frame at address 3 (pixels at 103); every helper succeeds. The pixel format
  constants have the values 2 and 28.

  The run starts from the zeroed private context (the helper's state already holding the
  two frames), stores the option defaults and the offsets, and calls \<open>init\<close> and
  \<open>config_output\<close>; \<open>scenario_done\<close> is the state after the event.
\<close>

definition blank_frame :: AVFrame where
  "blank_frame = \<lparr>width = 0, height = 0, linesize0 = 0, format = - 1, data0 = 0, pts = 0,
     sample_aspect_ratio = (0, 1), frame_rate = (0, 1)\<rparr>"

definition blank_picture :: TM_Picture where
  "blank_picture = \<lparr>pic_height = 0, pic_width = 0, pic_linesize = 0, pic_mode = TM_RGB, pic_ptr = 0\<rparr>"

definition blank_link :: AVFilterLink where
  "blank_link = \<lparr>link_w = 0, link_h = 0, link_time_base = (0, 1),
     link_sample_aspect_ratio = (0, 1), link_frame_rate = (0, 1), link_format = - 1,
     in_formats = None, out_formats = None\<rparr>"

definition scenario_env :: "(addr \<times> addr) env" where
  "scenario_env =
     \<lparr>AV_PIX_FMT_RGB24 = 2, AV_PIX_FMT_RGBA = 28, AVERROR_ENOMEM = - 12,
      ff_framesync_get_frame =
        (\<lambda>sync i get. (0, if i = 0 then fst (sync_state sync) else snd (sync_state sync), sync)),
      ff_framesync_configure = (\<lambda>sync. (0, sync)),
      ff_make_format_list = Some,
      ff_formats_ref = (\<lambda>f r. (0, Some f)),
      new_frame = Some (3, blank_frame\<lparr>linesize0 := 12, data0 := 103\<rparr>),
      ff_filter_frame = (\<lambda>link frame. 0),
      tm_call = (\<lambda>f pin plogo x y pout layout. 0)\<rparr>"

definition scenario_input_frame :: AVFrame where
  "scenario_input_frame = \<lparr>width = 4, height = 4, linesize0 = 12, format = 2, data0 = 101,
     pts = 0, sample_aspect_ratio = (1, 1), frame_rate = (25, 1)\<rparr>"

definition scenario_logo_frame :: AVFrame where
  "scenario_logo_frame = \<lparr>width = 2, height = 2, linesize0 = 8, format = 28, data0 = 102,
     pts = 0, sample_aspect_ratio = (1, 1), frame_rate = (25, 1)\<rparr>"

definition zeroed_priv :: "(addr \<times> addr) TMBlockContext" where
  "zeroed_priv =
     \<lparr>offset_x = 0, offset_y = 0, input_pic = blank_picture, logo_pic = blank_picture,
      output_pic = blank_picture, queue_input = [], queue_logo = [], func_type = 0,
      func = None, fs = \<lparr>on_event = None, sync_state = (1, 2)\<rparr>\<rparr>"

definition scenario_fresh :: "(addr \<times> addr) filter_state" where
  "scenario_fresh =
     \<lparr>priv = (av_opt_set_defaults tmblock_options zeroed_priv)\<lparr>offset_x := 1, offset_y := 1\<rparr>,
      inputs0 = blank_link\<lparr>link_w := 4, link_h := 4, link_format := 2\<rparr>,
      inputs1 = blank_link\<lparr>link_w := 2, link_h := 2, link_format := 28\<rparr>,
      outputs0 = blank_link\<lparr>link_format := 2\<rparr>,
      frames = (\<lambda>a. blank_frame)(1 := scenario_input_frame, 2 := scenario_logo_frame),
      trace = []\<rparr>"

definition scenario_ready :: "(addr \<times> addr) filter_state" where
  "scenario_ready = snd (config_output (snd (init scenario_env scenario_fresh)))"

definition scenario_done :: "(addr \<times> addr) filter_state" where
  "scenario_done =
     (case process_frame scenario_env scenario_ready of
        Inl x \<Rightarrow> scenario_ready
      | Inr (ret, s) \<Rightarrow> s)"

text \<open>The same run with an operation that fails with status 5.\<close>

definition failing_env :: "(addr \<times> addr) env" where
  "failing_env = scenario_env\<lparr>tm_call := (\<lambda>f pin plogo x y pout layout. 5)\<rparr>"

definition scenario_failed :: "(addr \<times> addr) filter_state" where
  "scenario_failed =
     (case process_frame failing_env scenario_ready of
        Inl x \<Rightarrow> scenario_ready
      | Inr (ret, s) \<Rightarrow> s)"

text \<open>
  The same run with an input frame that is larger (8x8) than its link says (4x4), with a
  framesync helper whose configuration fails (status -22), and a fresh context whose
  selector holds 7, a value outside the enumeration.
\<close>

definition oversized_ready :: "(addr \<times> addr) filter_state" where
  "oversized_ready =
     scenario_ready\<lparr>frames := (frames scenario_ready)
       (1 := scenario_input_frame\<lparr>width := 8, height := 8\<rparr>)\<rparr>"

definition oversized_done :: "(addr \<times> addr) filter_state" where
  "oversized_done =
     (case process_frame scenario_env oversized_ready of
        Inl x \<Rightarrow> oversized_ready
      | Inr (ret, s) \<Rightarrow> s)"

definition unconfigurable_env :: "(addr \<times> addr) env" where
  "unconfigurable_env = scenario_env\<lparr>ff_framesync_configure := (\<lambda>sync. (- 22, sync))\<rparr>"


section \<open>Properties\<close>

subsection \<open>What a synchronization event does\<close>

lemmas scenario_defs = scenario_ready_def scenario_fresh_def scenario_env_def zeroed_priv_def
  tmblock_options_def init_def config_output_def FUNC_EMBED_def FUNC_PRE_def FUNC_POST_def
  blank_link_def blank_frame_def blank_picture_def scenario_input_frame_def
  scenario_logo_frame_def Let_def

lemmas process_frame_defs = process_frame_def draw_frame_def copy_AVFrame_to_TM_Picture_def
  process_frame_out_def av_frame_free_def ff_get_video_buffer_def av_frame_copy_props_def Let_def

lemma process_frame_out_eq:
  "process_frame_out out a b s =
     s\<lparr>trace := trace s @ (case out of None \<Rightarrow> [] | Some p \<Rightarrow> [Release p]) @ [Release a, Release b]\<rparr>"
  by (simp add: process_frame_out_def av_frame_free_def split: option.splits)

lemma draw_frame_Inr:
  assumes "draw_frame e a b p s = Inr (st, s2)"
  shows "\<exists>f pin plogo pout.
     func (priv s) = Some f \<and>
     copy_AVFrame_to_TM_Picture e (input_pic (priv s)) (frames s a) = Inr pin \<and>
     copy_AVFrame_to_TM_Picture e (logo_pic (priv s)) (frames s b) = Inr plogo \<and>
     copy_AVFrame_to_TM_Picture e (output_pic (priv s)) (frames s p) = Inr pout \<and>
     st = tm_call e f pin plogo (offset_x (priv s)) (offset_y (priv s)) pout TM_PACKED \<and>
     s2 = s\<lparr>priv := (priv s)\<lparr>input_pic := pin, logo_pic := plogo, output_pic := pout\<rparr>,
            trace := trace s @
              [Apply f pin plogo (offset_x (priv s)) (offset_y (priv s)) pout TM_PACKED st]\<rparr>"
  using assms unfolding draw_frame_def Let_def
  by (auto split: sum.splits option.splits)

text \<open>
  The ways a synchronization event can end without a fault, with the events it logs, the
  frame it leaves at the allocated address and the descriptors and the status of the call
  of the operation: no pair (either call of the framesync helper failed), no buffer, the
  operation failed, or the output frame was passed downstream. \<open>a\<close> and \<open>b\<close> are the
  frames the two calls of \<open>ff_framesync_get_frame\<close> returned, both for stream 0.
\<close>

lemma process_frame_Inr:
  assumes run: "process_frame e s = Inr (ret, s')"
    and g1: "ff_framesync_get_frame e (fs (priv s)) 0 0 = (r1, a, sync1)"
    and g2: "ff_framesync_get_frame e sync1 0 0 = (r2, b, sync2)"
  shows "queue_input (priv s') = queue_input (priv s) \<and> queue_logo (priv s') = queue_logo (priv s) \<and>
     inputs0 s' = inputs0 s \<and> inputs1 s' = inputs1 s \<and> outputs0 s' = outputs0 s \<and>
     trace s' = trace s @ events_of s s' \<and>
     (r1 < 0 \<and> ret = r1 \<and> events_of s s' = [] \<or>
      0 \<le> r1 \<and> r2 < 0 \<and> ret = r2 \<and> events_of s s' = [] \<or>
      0 \<le> r1 \<and> 0 \<le> r2 \<and> new_frame e = None \<and> ret = AVERROR_ENOMEM e \<and>
        events_of s s' = [Release a, Release b] \<or>
      0 \<le> r1 \<and> 0 \<le> r2 \<and>
        (\<exists>p fresh f pin plogo pout st. new_frame e = Some (p, fresh) \<and>
           frames s' = (frames s)(p := av_frame_copy_props
                (fresh\<lparr>width := link_w (outputs0 s), height := link_h (outputs0 s),
                  format := link_format (outputs0 s)\<rparr>)
                (((frames s)(p := (fresh\<lparr>width := link_w (outputs0 s), height := link_h (outputs0 s),
                    format := link_format (outputs0 s)\<rparr>))) a)) \<and>
           func (priv s) = Some f \<and>
           copy_AVFrame_to_TM_Picture e (input_pic (priv s)) (frames s' a) = Inr pin \<and>
           copy_AVFrame_to_TM_Picture e (logo_pic (priv s)) (frames s' b) = Inr plogo \<and>
           copy_AVFrame_to_TM_Picture e (output_pic (priv s)) (frames s' p) = Inr pout \<and>
           st = tm_call e f pin plogo (offset_x (priv s)) (offset_y (priv s)) pout TM_PACKED \<and>
           (st \<noteq> 0 \<and> ret = st \<and>
              events_of s s' =
                [Allocate p,
                 Apply f pin plogo (offset_x (priv s)) (offset_y (priv s)) pout TM_PACKED st,
                 Release p, Release a, Release b] \<or>
            st = 0 \<and>
              events_of s s' =
                [Allocate p,
                 Apply f pin plogo (offset_x (priv s)) (offset_y (priv s)) pout TM_PACKED 0,
                 Forward p ret, Release p, Release a, Release b])))"
proof (cases "r1 < 0")
  case True
  with run g1 show ?thesis
    by (auto simp: process_frame_def events_of_def)
next
  case n1: False
  show ?thesis
  proof (cases "r2 < 0")
    case True
    with run g1 g2 n1 show ?thesis
      by (auto simp: process_frame_def events_of_def)
  next
    case n2: False
    show ?thesis
    proof (cases "new_frame e")
      case None
      with run g1 g2 n1 n2 show ?thesis
        by (auto simp: process_frame_def ff_get_video_buffer_def process_frame_out_eq events_of_def)
    next
      case (Some pf)
      obtain p fresh where pf: "pf = (p, fresh)" by (cases pf)
      define s1 where "s1 =
        (let sa = s\<lparr>priv := (priv s)\<lparr>fs := sync2\<rparr>\<rparr>;
             sb = sa\<lparr>frames := (frames sa)
                       (p := fresh\<lparr>width := link_w (outputs0 s), height := link_h (outputs0 s),
                                    format := link_format (outputs0 s)\<rparr>),
                     trace := trace sa @ [Allocate p]\<rparr>
         in sb\<lparr>frames := (frames sb)(p := av_frame_copy_props (frames sb p) (frames sb a))\<rparr>)"
      from run g1 g2 n1 n2 Some pf
      have step: "(case draw_frame e a b p s1 of
             Inl x \<Rightarrow> Inl x
           | Inr (st, s2) \<Rightarrow>
               if st \<noteq> 0 then Inr (st, process_frame_out (Some p) a b s2)
               else Inr (ff_filter_frame e (outputs0 s) p,
                      process_frame_out (Some p) a b
                        (s2\<lparr>trace := trace s2 @ [Forward p (ff_filter_frame e (outputs0 s) p)]\<rparr>)))
          = Inr (ret, s')"
        unfolding process_frame_def ff_get_video_buffer_def Let_def s1_def
        by (simp add: fun_upd_same del: fun_upd_apply)
      then obtain st s2 where d: "draw_frame e a b p s1 = Inr (st, s2)"
        by (auto split: sum.splits)
      from draw_frame_Inr [OF d] obtain f pin plogo pout where s2: "s2 =
          s1\<lparr>priv := (priv s1)\<lparr>input_pic := pin, logo_pic := plogo, output_pic := pout\<rparr>,
             trace := trace s1 @
               [Apply f pin plogo (offset_x (priv s1)) (offset_y (priv s1)) pout TM_PACKED st]\<rparr>"
        and pics: "func (priv s1) = Some f"
          "copy_AVFrame_to_TM_Picture e (input_pic (priv s1)) (frames s1 a) = Inr pin"
          "copy_AVFrame_to_TM_Picture e (logo_pic (priv s1)) (frames s1 b) = Inr plogo"
          "copy_AVFrame_to_TM_Picture e (output_pic (priv s1)) (frames s1 p) = Inr pout"
          "st = tm_call e f pin plogo (offset_x (priv s1)) (offset_y (priv s1)) pout TM_PACKED"
        by blast
      have s1_priv: "func (priv s1) = func (priv s)" "input_pic (priv s1) = input_pic (priv s)"
        "logo_pic (priv s1) = logo_pic (priv s)" "output_pic (priv s1) = output_pic (priv s)"
        "offset_x (priv s1) = offset_x (priv s)" "offset_y (priv s1) = offset_y (priv s)"
        by (simp_all add: s1_def Let_def)
      note pics' = pics [unfolded s1_priv]
      show ?thesis
      proof (cases "st = 0")
        case True
        with step d have "s' = process_frame_out (Some p) a b
            (s2\<lparr>trace := trace s2 @ [Forward p (ff_filter_frame e (outputs0 s) p)]\<rparr>)"
          and "ret = ff_filter_frame e (outputs0 s) p"
          by auto
        then have fr: "frames s' = frames s1"
          by (simp add: s2 process_frame_out_eq)
        from pics' have "func (priv s) = Some f \<and>
           copy_AVFrame_to_TM_Picture e (input_pic (priv s)) (frames s' a) = Inr pin \<and>
           copy_AVFrame_to_TM_Picture e (logo_pic (priv s)) (frames s' b) = Inr plogo \<and>
           copy_AVFrame_to_TM_Picture e (output_pic (priv s)) (frames s' p) = Inr pout \<and>
           st = tm_call e f pin plogo (offset_x (priv s)) (offset_y (priv s)) pout TM_PACKED"
          by (simp add: fr)
        with \<open>s' = _\<close> \<open>ret = _\<close> True n1 n2 Some pf show ?thesis
          by (simp add: s2 s1_def process_frame_out_eq events_of_def fun_upd_same
              del: fun_upd_apply)
      next
        case False
        with step d have "s' = process_frame_out (Some p) a b s2" and "ret = st"
          by auto
        then have fr: "frames s' = frames s1"
          by (simp add: s2 process_frame_out_eq)
        from pics' have "func (priv s) = Some f \<and>
           copy_AVFrame_to_TM_Picture e (input_pic (priv s)) (frames s' a) = Inr pin \<and>
           copy_AVFrame_to_TM_Picture e (logo_pic (priv s)) (frames s' b) = Inr plogo \<and>
           copy_AVFrame_to_TM_Picture e (output_pic (priv s)) (frames s' p) = Inr pout \<and>
           st = tm_call e f pin plogo (offset_x (priv s)) (offset_y (priv s)) pout TM_PACKED"
          by (simp add: fr)
        with \<open>s' = _\<close> \<open>ret = _\<close> False n1 n2 Some pf show ?thesis
          by (simp add: s2 s1_def process_frame_out_eq events_of_def fun_upd_same
              del: fun_upd_apply)
      qed
    qed
  qed
qed

lemma process_frame_keeps:
  assumes "process_frame e s = Inr (ret, s')"
  shows "queue_input (priv s') = queue_input (priv s) \<and> queue_logo (priv s') = queue_logo (priv s) \<and>
     inputs0 s' = inputs0 s \<and> inputs1 s' = inputs1 s \<and> outputs0 s' = outputs0 s \<and>
     trace s' = trace s @ events_of s s'"
proof -
  obtain r1 a sync1 where g1: "ff_framesync_get_frame e (fs (priv s)) 0 0 = (r1, a, sync1)"
    by (cases "ff_framesync_get_frame e (fs (priv s)) 0 0") auto
  obtain r2 b sync2 where g2: "ff_framesync_get_frame e sync1 0 0 = (r2, b, sync2)"
    by (cases "ff_framesync_get_frame e sync1 0 0") auto
  from process_frame_Inr [OF assms g1 g2] show ?thesis by blast
qed

lemma process_frame_allocated:
  assumes run: "process_frame e s = Inr (ret, s')"
    and alloc: "Allocate p \<in> set (events_of s s')"
    and g1: "ff_framesync_get_frame e (fs (priv s)) 0 0 = (r1, a, sync1)"
  shows "\<exists>fresh. new_frame e = Some (p, fresh) \<and>
     frames s' p =
       av_frame_copy_props
         (fresh\<lparr>width := link_w (outputs0 s), height := link_h (outputs0 s),
                format := link_format (outputs0 s)\<rparr>)
         (((frames s)(p := fresh\<lparr>width := link_w (outputs0 s), height := link_h (outputs0 s),
                format := link_format (outputs0 s)\<rparr>)) a)"
proof -
  obtain r2 b sync2 where g2: "ff_framesync_get_frame e sync1 0 0 = (r2, b, sync2)"
    by (cases "ff_framesync_get_frame e sync1 0 0") auto
  from process_frame_Inr [OF run g1 g2] alloc show ?thesis
    by (auto simp del: fun_upd_apply simp add: fun_upd_same)
qed

text \<open>
  In every event that reaches the operation, the input descriptor is built from the frame
  of the first call of \<open>ff_framesync_get_frame\<close> and the logo descriptor from the frame
  of the second call, both made for stream 0, and the offsets are the configured ones.
\<close>

lemma descriptors_from_stream_0:
  assumes run: "process_frame e s = Inr (ret, s')"
    and g1: "ff_framesync_get_frame e (fs (priv s)) 0 0 = (r1, a, sync1)"
    and g2: "ff_framesync_get_frame e sync1 0 0 = (r2, b, sync2)"
    and op: "Apply f pin plogo x y pout layout st \<in> set (events_of s s')"
  shows "copy_AVFrame_to_TM_Picture e (input_pic (priv s)) (frames s' a) = Inr pin \<and>
     copy_AVFrame_to_TM_Picture e (logo_pic (priv s)) (frames s' b) = Inr plogo \<and>
     x = offset_x (priv s) \<and> y = offset_y (priv s)"
  using process_frame_Inr [OF run g1 g2] op
  by auto

text \<open>
  A frame passed downstream is released by the same event right afterwards, whatever the
  status of \<open>ff_filter_frame\<close> is: the event's log ends with the forwarding and the three
  releases after the label \<open>out\<close>.
\<close>

lemma forwarded_frame_released_again:
  assumes run: "process_frame e s = Inr (ret, s')"
    and fwd: "Forward p r \<in> set (events_of s s')"
  shows "\<exists>pre a b. events_of s s' = pre @ [Forward p r, Release p, Release a, Release b]"
proof -
  obtain r1 a sync1 where g1: "ff_framesync_get_frame e (fs (priv s)) 0 0 = (r1, a, sync1)"
    by (cases "ff_framesync_get_frame e (fs (priv s)) 0 0") auto
  obtain r2 b sync2 where g2: "ff_framesync_get_frame e sync1 0 0 = (r2, b, sync2)"
    by (cases "ff_framesync_get_frame e sync1 0 0") auto
  from process_frame_Inr [OF run g1 g2] fwd show ?thesis
    by auto
qed

subsection \<open>The concrete run, evaluated\<close>

lemma scenario_run: "process_frame scenario_env scenario_ready = Inr (0, scenario_done)"
  by (simp add: scenario_done_def scenario_defs process_frame_defs)

lemma scenario_ready_trace: "trace scenario_ready = []"
  by (simp add: scenario_defs)

lemma scenario_ready_frames:
  "frames scenario_ready 1 = scenario_input_frame" "frames scenario_ready 2 = scenario_logo_frame"
  by (simp_all add: scenario_defs)

lemma scenario_ready_sync: "sync_state (fs (priv scenario_ready)) = (1, 2)"
  by (simp add: scenario_defs)

lemma scenario_done_trace:
  "trace scenario_done =
     [Allocate 3,
      Apply TM_embed
        \<lparr>pic_height = 4, pic_width = 4, pic_linesize = 12, pic_mode = TM_RGB, pic_ptr = 101\<rparr>
        \<lparr>pic_height = 4, pic_width = 4, pic_linesize = 12, pic_mode = TM_RGB, pic_ptr = 101\<rparr>
        1 1
        \<lparr>pic_height = 4, pic_width = 4, pic_linesize = 12, pic_mode = TM_RGB, pic_ptr = 103\<rparr>
        TM_PACKED 0,
      Forward 3 0, Release 3, Release 1, Release 1]"
  by (simp add: scenario_done_def scenario_defs process_frame_defs)

lemma scenario_failed_run: "process_frame failing_env scenario_ready = Inr (5, scenario_failed)"
  by (simp add: scenario_failed_def failing_env_def scenario_defs process_frame_defs)

lemma scenario_failed_trace:
  "trace scenario_failed =
     [Allocate 3,
      Apply TM_embed
        \<lparr>pic_height = 4, pic_width = 4, pic_linesize = 12, pic_mode = TM_RGB, pic_ptr = 101\<rparr>
        \<lparr>pic_height = 4, pic_width = 4, pic_linesize = 12, pic_mode = TM_RGB, pic_ptr = 101\<rparr>
        1 1
        \<lparr>pic_height = 4, pic_width = 4, pic_linesize = 12, pic_mode = TM_RGB, pic_ptr = 103\<rparr>
        TM_PACKED 5,
      Release 3, Release 1, Release 1]"
  by (simp add: scenario_failed_def failing_env_def scenario_defs process_frame_defs)

lemma oversized_run: "process_frame scenario_env oversized_ready = Inr (0, oversized_done)"
  by (simp add: oversized_done_def oversized_ready_def scenario_defs process_frame_defs)

lemma oversized_done_frame:
  "width (frames oversized_done 3) = 4 \<and> height (frames oversized_done 3) = 4"
  by (simp add: oversized_done_def oversized_ready_def scenario_defs process_frame_defs)

lemma oversized_done_trace:
  "Allocate 3 \<in> set (events_of oversized_ready oversized_done)"
  by (simp add: events_of_def oversized_done_def oversized_ready_def scenario_defs process_frame_defs)

subsection \<open>The picture bridge\<close>

text \<open>
  With a non-zero \<open>AV_PIX_FMT_RGB24\<close> the conversion has no failing path: every layout
  but RGBA gets the tag \<open>TM_RGB\<close>, and the assertion always holds.
\<close>

lemma copy_never_fails:
  "AV_PIX_FMT_RGB24 e \<noteq> 0 \<Longrightarrow>
   copy_AVFrame_to_TM_Picture e picture frame =
     Inr \<lparr>pic_height = height frame, pic_width = width frame, pic_linesize = linesize0 frame,
          pic_mode = (if format frame = AV_PIX_FMT_RGBA e then TM_RGBA else TM_RGB),
          pic_ptr = data0 frame\<rparr>"
  by (simp add: copy_AVFrame_to_TM_Picture_def)

text \<open>
  C2. The claim: converting a frame maps the layout RGBA to the tag RGBA and RGB24 to the
  tag RGB, and fails with UnsupportedLayout for every other layout. The code does not
  fail: a frame whose layout (here the value 0) is neither RGB24 (2) nor RGBA (28) is
  converted to a descriptor with the recognized tag \<open>TM_RGB\<close>, because the second
  condition tests the constant \<open>AV_PIX_FMT_RGB24\<close> and not the frame's format.
\<close>

theorem unsupported_layout_gets_rgb_tag:
  "format (scenario_input_frame\<lparr>format := 0\<rparr>) \<noteq> AV_PIX_FMT_RGB24 scenario_env \<and>
   format (scenario_input_frame\<lparr>format := 0\<rparr>) \<noteq> AV_PIX_FMT_RGBA scenario_env \<and>
   copy_AVFrame_to_TM_Picture scenario_env blank_picture (scenario_input_frame\<lparr>format := 0\<rparr>) =
     Inr \<lparr>pic_height = 4, pic_width = 4, pic_linesize = 12, pic_mode = TM_RGB, pic_ptr = 101\<rparr>"
  by (simp add: copy_AVFrame_to_TM_Picture_def scenario_env_def scenario_input_frame_def
      blank_picture_def)

subsection \<open>One event of the spec's scenario\<close>

text \<open>
  C1. The claim: at every synchronization event the operation is invoked once, with the
  input descriptor built from the frame of stream 0 and the logo descriptor built from the
  frame of stream 1, and the configured offsets. In the scenario the frame of stream 1 is
  the 2x2 RGBA frame at address 2, whose descriptor would be 2x2 with tag \<open>TM_RGBA\<close> and
  pixels at 102; the operation is invoked once with offsets (1, 1), but its logo
  descriptor is that of the frame of stream 0 (4x4, tag \<open>TM_RGB\<close>, pixels at 101), the
  same as its input descriptor: both frames are fetched with stream index 0.
\<close>

theorem logo_descriptor_built_from_stream_0:
  "ff_framesync_get_frame scenario_env (fs (priv scenario_ready)) 1 0 = (0, 2, fs (priv scenario_ready)) \<and>
   copy_AVFrame_to_TM_Picture scenario_env blank_picture (frames scenario_ready 2) =
     Inr \<lparr>pic_height = 2, pic_width = 2, pic_linesize = 8, pic_mode = TM_RGBA, pic_ptr = 102\<rparr> \<and>
   process_frame scenario_env scenario_ready = Inr (0, scenario_done) \<and>
   events_of scenario_ready scenario_done =
     [Allocate 3,
      Apply TM_embed
        \<lparr>pic_height = 4, pic_width = 4, pic_linesize = 12, pic_mode = TM_RGB, pic_ptr = 101\<rparr>
        \<lparr>pic_height = 4, pic_width = 4, pic_linesize = 12, pic_mode = TM_RGB, pic_ptr = 101\<rparr>
        1 1
        \<lparr>pic_height = 4, pic_width = 4, pic_linesize = 12, pic_mode = TM_RGB, pic_ptr = 103\<rparr>
        TM_PACKED 0,
      Forward 3 0, Release 3, Release 1, Release 1]"
proof -
  have "ff_framesync_get_frame scenario_env (fs (priv scenario_ready)) 1 0 = (0, 2, fs (priv scenario_ready))"
    by (simp add: scenario_env_def scenario_ready_sync)
  moreover have "copy_AVFrame_to_TM_Picture scenario_env blank_picture (frames scenario_ready 2) =
     Inr \<lparr>pic_height = 2, pic_width = 2, pic_linesize = 8, pic_mode = TM_RGBA, pic_ptr = 102\<rparr>"
    by (simp add: scenario_ready_frames copy_AVFrame_to_TM_Picture_def scenario_env_def
        scenario_logo_frame_def blank_picture_def)
  moreover have "events_of scenario_ready scenario_done = trace scenario_done"
    by (simp add: events_of_def scenario_ready_trace)
  ultimately show ?thesis
    by (simp add: scenario_run scenario_done_trace)
qed

text \<open>
  C3. The claim: on every terminal path of an event the input frame, the logo frame and
  the output frame (if allocated) are each released exactly once, and the output frame is
  not released by the event once it has been forwarded successfully. In the scenario
  forwarding succeeds (status 0) and the event then releases the forwarded output frame
  (address 3); it releases the frame of stream 0 (address 1) twice, through \<open>input_buf\<close>
  and \<open>logo_buf\<close>, and the logo frame (address 2) never.
\<close>

theorem output_released_after_forwarding:
  "process_frame scenario_env scenario_ready = Inr (0, scenario_done) \<and>
   dropWhile (\<lambda>ev. ev \<noteq> Forward 3 0) (events_of scenario_ready scenario_done) =
     [Forward 3 0, Release 3, Release 1, Release 1] \<and>
   count_list (events_of scenario_ready scenario_done) (Release 1) = 2 \<and>
   count_list (events_of scenario_ready scenario_done) (Release 2) = 0"
proof -
  have "events_of scenario_ready scenario_done = trace scenario_done"
    by (simp add: events_of_def scenario_ready_trace)
  then show ?thesis
    by (simp add: scenario_run scenario_done_trace)
qed

subsection \<open>A failing operation\<close>

text \<open>
  C4. For every processing event in which the bound operation returns a non-zero status,
  the status is what \<open>process_frame\<close> returns, no frame is passed downstream during the
  event, and the output frame allocated for the event is released.
\<close>

theorem failed_operation_not_forwarded:
  assumes run: "process_frame e s = Inr (ret, s')"
    and op: "Apply f pin plogo x y pout layout st \<in> set (events_of s s')"
    and st: "st \<noteq> 0"
  shows "ret = st \<and> (\<forall>q r. Forward q r \<notin> set (events_of s s')) \<and>
     (\<exists>p fresh. new_frame e = Some (p, fresh) \<and> Allocate p \<in> set (events_of s s') \<and>
        Release p \<in> set (events_of s s'))"
proof -
  obtain r1 a sync1 where g1: "ff_framesync_get_frame e (fs (priv s)) 0 0 = (r1, a, sync1)"
    by (cases "ff_framesync_get_frame e (fs (priv s)) 0 0") auto
  obtain r2 b sync2 where g2: "ff_framesync_get_frame e sync1 0 0 = (r2, b, sync2)"
    by (cases "ff_framesync_get_frame e sync1 0 0") auto
  from process_frame_Inr [OF run g1 g2] op st show ?thesis
    by auto
qed

theorem failed_operation_witness:
  "process_frame failing_env scenario_ready = Inr (5, scenario_failed) \<and>
   Apply TM_embed
     \<lparr>pic_height = 4, pic_width = 4, pic_linesize = 12, pic_mode = TM_RGB, pic_ptr = 101\<rparr>
     \<lparr>pic_height = 4, pic_width = 4, pic_linesize = 12, pic_mode = TM_RGB, pic_ptr = 101\<rparr>
     1 1
     \<lparr>pic_height = 4, pic_width = 4, pic_linesize = 12, pic_mode = TM_RGB, pic_ptr = 103\<rparr>
     TM_PACKED 5 \<in> set (events_of scenario_ready scenario_failed) \<and>
   (\<forall>q r. Forward q r \<notin> set (events_of scenario_ready scenario_failed)) \<and>
   Release 3 \<in> set (events_of scenario_ready scenario_failed)"
proof -
  have ev: "events_of scenario_ready scenario_failed = trace scenario_failed"
    by (simp add: events_of_def scenario_ready_trace)
  have op: "Apply TM_embed
     \<lparr>pic_height = 4, pic_width = 4, pic_linesize = 12, pic_mode = TM_RGB, pic_ptr = 101\<rparr>
     \<lparr>pic_height = 4, pic_width = 4, pic_linesize = 12, pic_mode = TM_RGB, pic_ptr = 101\<rparr>
     1 1
     \<lparr>pic_height = 4, pic_width = 4, pic_linesize = 12, pic_mode = TM_RGB, pic_ptr = 103\<rparr>
     TM_PACKED 5 \<in> set (events_of scenario_ready scenario_failed)"
    by (simp add: ev scenario_failed_trace)
  have "(5::int) \<noteq> 0" by simp
  from failed_operation_not_forwarded [OF scenario_failed_run op this] op
  show ?thesis
    by (simp add: scenario_failed_run ev scenario_failed_trace)
qed

subsection \<open>Callbacks, links and queues\<close>

lemma query_formats_keeps:
  "priv (snd (query_formats e s)) = priv s \<and> trace (snd (query_formats e s)) = trace s \<and>
   link_w (inputs0 (snd (query_formats e s))) = link_w (inputs0 s) \<and>
   link_h (inputs0 (snd (query_formats e s))) = link_h (inputs0 s) \<and>
   link_w (outputs0 (snd (query_formats e s))) = link_w (outputs0 s) \<and>
   link_h (outputs0 (snd (query_formats e s))) = link_h (outputs0 s)"
  by (simp add: query_formats_def Let_def split: option.splits prod.splits)

lemma init_keeps:
  "queue_input (priv (snd (init e s))) = queue_input (priv s) \<and>
   queue_logo (priv (snd (init e s))) = queue_logo (priv s) \<and>
   trace (snd (init e s)) = trace s \<and>
   inputs0 (snd (init e s)) = inputs0 s \<and> outputs0 (snd (init e s)) = outputs0 s"
  by (simp add: init_def Let_def split: option.splits prod.splits)

lemma config_output_keeps:
  "priv (snd (config_output s)) = priv s \<and> trace (snd (config_output s)) = trace s \<and>
   inputs0 (snd (config_output s)) = inputs0 s \<and>
   link_w (outputs0 (snd (config_output s))) = link_w (inputs0 s) \<and>
   link_h (outputs0 (snd (config_output s))) = link_h (inputs0 s)"
  by (simp add: config_output_def Let_def)

lemma ff_bufqueue_discard_all_eq:
  "ff_bufqueue_discard_all q s = ([], s\<lparr>trace := trace s @ map Release q\<rparr>)"
  by (induction q arbitrary: s) (simp_all add: av_frame_free_def)

lemma uninit_eq:
  "uninit s =
     s\<lparr>priv := (priv s)\<lparr>queue_input := [], queue_logo := []\<rparr>,
       trace := trace s @ map Release (queue_input (priv s)) @ map Release (queue_logo (priv s))\<rparr>"
  by (simp add: uninit_def ff_bufqueue_discard_all_eq)

lemma callback_queues:
  assumes "callback s s'" and "queue_input (priv s) = []" and "queue_logo (priv s) = []"
  shows "queue_input (priv s') = [] \<and> queue_logo (priv s') = []"
  using assms
proof (cases rule: callback.cases)
  case (by_query_formats e)
  with assms show ?thesis by (simp add: query_formats_keeps)
next
  case (by_init e)
  with assms show ?thesis by (simp add: init_keeps)
next
  case by_config_output
  with assms show ?thesis by (simp add: config_output_keeps)
next
  case (by_process_frame e ret)
  with assms show ?thesis by (simp add: process_frame_keeps)
next
  case by_uninit
  then show ?thesis by (simp add: uninit_eq)
qed

lemma callback_geometry:
  assumes "callback s s'"
    and "link_w (outputs0 s) = link_w (inputs0 s)" and "link_h (outputs0 s) = link_h (inputs0 s)"
  shows "link_w (outputs0 s') = link_w (inputs0 s') \<and> link_h (outputs0 s') = link_h (inputs0 s')"
  using assms
proof (cases rule: callback.cases)
  case (by_query_formats e)
  with assms show ?thesis by (simp add: query_formats_keeps)
next
  case (by_init e)
  with assms show ?thesis by (simp add: init_keeps)
next
  case by_config_output
  with assms show ?thesis by (simp add: config_output_keeps)
next
  case (by_process_frame e ret)
  with assms show ?thesis by (simp add: process_frame_keeps)
next
  case by_uninit
  with assms show ?thesis by (simp add: uninit_eq)
qed

lemma configured_geometry:
  "configured s \<Longrightarrow>
   link_w (outputs0 s) = link_w (inputs0 s) \<and> link_h (outputs0 s) = link_h (inputs0 s)"
proof (induction rule: configured.induct)
  case (config s)
  show ?case by (simp add: config_output_keeps)
next
  case (later s s')
  then show ?case using callback_geometry by blast
qed

text \<open>
  C5. Once the output link is configured, the output frame allocated for an event has the
  width and height of the input stream (the link \<open>inputs[0]\<close>), not of the logo stream,
  in every state and so for all values of the offsets, which are fields of the state.
\<close>

theorem output_frame_has_input_stream_size:
  assumes conf: "configured s"
    and run: "process_frame e s = Inr (ret, s')"
    and alloc: "Allocate p \<in> set (events_of s s')"
  shows "width (frames s' p) = link_w (inputs0 s) \<and> height (frames s' p) = link_h (inputs0 s)"
proof -
  obtain r1 a sync1 where g1: "ff_framesync_get_frame e (fs (priv s)) 0 0 = (r1, a, sync1)"
    by (cases "ff_framesync_get_frame e (fs (priv s)) 0 0") auto
  from process_frame_allocated [OF run alloc g1] obtain fresh where
    "frames s' p =
       av_frame_copy_props
         (fresh\<lparr>width := link_w (outputs0 s), height := link_h (outputs0 s),
                format := link_format (outputs0 s)\<rparr>)
         (((frames s)(p := fresh\<lparr>width := link_w (outputs0 s), height := link_h (outputs0 s),
                format := link_format (outputs0 s)\<rparr>)) a)"
    by blast
  then have "width (frames s' p) = link_w (outputs0 s) \<and> height (frames s' p) = link_h (outputs0 s)"
    by (simp add: av_frame_copy_props_def)
  with configured_geometry [OF conf] show ?thesis by simp
qed

theorem output_frame_size_witness:
  "configured scenario_ready \<and>
   process_frame scenario_env scenario_ready = Inr (0, scenario_done) \<and>
   Allocate 3 \<in> set (events_of scenario_ready scenario_done) \<and>
   width (frames scenario_done 3) = 4 \<and> height (frames scenario_done 3) = 4 \<and>
   link_w (inputs1 scenario_ready) = 2 \<and> link_h (inputs1 scenario_ready) = 2"
proof -
  have conf: "configured scenario_ready"
    unfolding scenario_ready_def by (rule configured.config)
  have alloc: "Allocate 3 \<in> set (events_of scenario_ready scenario_done)"
    by (simp add: events_of_def scenario_ready_trace scenario_done_trace)
  have "link_w (inputs0 scenario_ready) = 4 \<and> link_h (inputs0 scenario_ready) = 4 \<and>
     link_w (inputs1 scenario_ready) = 2 \<and> link_h (inputs1 scenario_ready) = 2"
    by (simp add: scenario_defs)
  with output_frame_has_input_stream_size [OF conf scenario_run alloc] conf alloc
  show ?thesis by (simp add: scenario_run)
qed

subsection \<open>The output frame\<close>

text \<open>
  C7 as stated (the output frame is sized to the input frame's width and height) fails:
  the buffer is requested with the output link's width and height. Here the frame of
  stream 0 is 8x8 on links configured as 4x4, and the output frame allocated for the event
  is 4x4.
\<close>

theorem output_frame_not_sized_to_input_frame:
  "process_frame scenario_env oversized_ready = Inr (0, oversized_done) \<and>
   ff_framesync_get_frame scenario_env (fs (priv oversized_ready)) 0 0 = (0, 1, fs (priv oversized_ready)) \<and>
   width (frames oversized_ready 1) = 8 \<and> height (frames oversized_ready 1) = 8 \<and>
   Allocate 3 \<in> set (events_of oversized_ready oversized_done) \<and>
   width (frames oversized_done 3) = 4 \<and> height (frames oversized_done 3) = 4"
proof -
  have "ff_framesync_get_frame scenario_env (fs (priv oversized_ready)) 0 0 =
      (0, 1, fs (priv oversized_ready))"
    by (simp add: oversized_ready_def scenario_defs)
  moreover have "width (frames oversized_ready 1) = 8 \<and> height (frames oversized_ready 1) = 8"
    by (simp add: oversized_ready_def scenario_input_frame_def)
  ultimately show ?thesis
    by (simp add: oversized_run oversized_done_frame oversized_done_trace)
qed

text \<open>
  C7, amended. For every processing event that allocates an output frame (distinct from
  the input frame), the frame is sized to the output link's width and height (which
  \<open>config_output\<close> sets to the input link's), the timestamp, the sample aspect ratio and
  the frame rate of the input frame (the frame of stream 0) are copied onto it, and its
  pixel buffer and stride stay those the allocator gave it: no pixel data comes from a
  source frame.
\<close>

theorem output_frame_size_and_metadata:
  assumes run: "process_frame e s = Inr (ret, s')"
    and alloc: "Allocate p \<in> set (events_of s s')"
    and g1: "ff_framesync_get_frame e (fs (priv s)) 0 0 = (r1, a, sync1)"
    and fresh: "new_frame e = Some (p, fresh)"
    and other: "p \<noteq> a"
  shows "width (frames s' p) = link_w (outputs0 s) \<and> height (frames s' p) = link_h (outputs0 s) \<and>
     pts (frames s' p) = pts (frames s a) \<and>
     sample_aspect_ratio (frames s' p) = sample_aspect_ratio (frames s a) \<and>
     frame_rate (frames s' p) = frame_rate (frames s a) \<and>
     data0 (frames s' p) = data0 fresh \<and> linesize0 (frames s' p) = linesize0 fresh"
  using process_frame_allocated [OF run alloc g1] fresh other
  by (auto simp: av_frame_copy_props_def)

theorem output_frame_size_and_metadata_witness:
  "process_frame scenario_env scenario_ready = Inr (0, scenario_done) \<and>
   Allocate 3 \<in> set (events_of scenario_ready scenario_done) \<and>
   ff_framesync_get_frame scenario_env (fs (priv scenario_ready)) 0 0 = (0, 1, fs (priv scenario_ready)) \<and>
   new_frame scenario_env = Some (3, blank_frame\<lparr>linesize0 := 12, data0 := 103\<rparr>) \<and>
   (3::nat) \<noteq> 1 \<and>
   width (frames scenario_done 3) = 4 \<and> height (frames scenario_done 3) = 4 \<and>
   pts (frames scenario_done 3) = 0 \<and> sample_aspect_ratio (frames scenario_done 3) = (1, 1) \<and>
   frame_rate (frames scenario_done 3) = (25, 1) \<and>
   data0 (frames scenario_done 3) = 103 \<and> linesize0 (frames scenario_done 3) = 12"
proof -
  have alloc: "Allocate 3 \<in> set (events_of scenario_ready scenario_done)"
    by (simp add: events_of_def scenario_ready_trace scenario_done_trace)
  have g1: "ff_framesync_get_frame scenario_env (fs (priv scenario_ready)) 0 0 =
      (0, 1, fs (priv scenario_ready))"
    by (simp add: scenario_env_def scenario_ready_sync)
  have fresh: "new_frame scenario_env = Some (3, blank_frame\<lparr>linesize0 := 12, data0 := 103\<rparr>)"
    by (simp add: scenario_env_def)
  have other: "(3::nat) \<noteq> 1" by simp
  have link: "link_w (outputs0 scenario_ready) = 4 \<and> link_h (outputs0 scenario_ready) = 4"
    by (simp add: scenario_defs)
  have src: "frames scenario_ready (Suc 0) = scenario_input_frame"
    using scenario_ready_frames(1) by simp
  from output_frame_size_and_metadata [OF scenario_run alloc g1 fresh other] alloc g1 fresh link
  show ?thesis
    by (simp add: scenario_run src scenario_input_frame_def blank_frame_def)
qed

subsection \<open>Initialization\<close>







text \<open>
  The option table declares one option that writes \<open>func_type\<close>; its default is
  \<open>FUNC_EMBED\<close>, and that is what a context holds after the defaults are stored.
\<close>

lemma default_selector: "func_type (av_opt_set_defaults tmblock_options c) = FUNC_EMBED"
  by (simp add: tmblock_options_def)

text \<open>
  C8 as stated (for each of the three selectors initialization succeeds) fails: \<open>init\<close>
  returns the status of \<open>ff_framesync_configure\<close>. With the default selector embed and
  a framesync configuration that fails with -22, the operation is bound and \<open>init\<close>
  returns -22.
\<close>

theorem init_valid_selector_can_fail:
  "func_type (priv scenario_fresh) = FUNC_EMBED \<and>
   fst (init unconfigurable_env scenario_fresh) = - 22 \<and>
   func (priv (snd (init unconfigurable_env scenario_fresh))) = Some TM_embed"
  by (simp add: unconfigurable_env_def scenario_defs)

text \<open>
  C8, amended. For each of the three selector values \<open>init\<close> binds the matching
  operation (\<open>TM_embed\<close>, \<open>TM_pre\<close>, \<open>TM_post\<close>, three distinct functions) and returns
  the status of \<open>ff_framesync_configure\<close>, called on the framesync state with the event
  callback registered: initialization succeeds exactly when that configuration does. The
  default selector of the option table is embed.
\<close>

theorem init_binds_operation:
  assumes "(func_type (priv s), f) \<in> {(FUNC_EMBED, TM_embed), (FUNC_PRE, TM_pre), (FUNC_POST, TM_post)}"
  shows "func (priv (snd (init e s))) = Some f \<and>
     fst (init e s) = fst (ff_framesync_configure e ((fs (priv s))\<lparr>on_event := Some process_frame_fn\<rparr>)) \<and>
     distinct [TM_embed, TM_pre, TM_post] \<and>
     map default_val (filter (\<lambda>opt. opt_offset opt = OFFSET_func_type) tmblock_options) =
       [FUNC_EMBED] \<and>
     func_type (av_opt_set_defaults tmblock_options c) = FUNC_EMBED"
proof -
  have "map default_val (filter (\<lambda>opt. opt_offset opt = OFFSET_func_type) tmblock_options) =
      [FUNC_EMBED]"
    by (simp add: tmblock_options_def)
  moreover from assms have "func (priv (snd (init e s))) = Some f \<and>
     fst (init e s) = fst (ff_framesync_configure e ((fs (priv s))\<lparr>on_event := Some process_frame_fn\<rparr>))"
    by (auto simp: init_def Let_def FUNC_EMBED_def FUNC_PRE_def FUNC_POST_def split: prod.splits)
  ultimately show ?thesis
    by (simp add: default_selector)
qed

theorem init_binds_operation_witness:
  "(func_type (priv scenario_fresh), TM_embed) \<in>
      {(FUNC_EMBED, TM_embed), (FUNC_PRE, TM_pre), (FUNC_POST, TM_post)} \<and>
   func (priv (snd (init scenario_env scenario_fresh))) = Some TM_embed \<and>
   fst (init scenario_env scenario_fresh) = 0"
proof -
  have sel: "(func_type (priv scenario_fresh), TM_embed) \<in>
      {(FUNC_EMBED, TM_embed), (FUNC_PRE, TM_pre), (FUNC_POST, TM_post)}"
    by (simp add: scenario_fresh_def default_selector)
  have "fst (ff_framesync_configure scenario_env
      ((fs (priv scenario_fresh))\<lparr>on_event := Some process_frame_fn\<rparr>)) = 0"
    by (simp add: scenario_env_def)
  with init_binds_operation [OF sel, of scenario_env zeroed_priv] sel show ?thesis
    by simp
qed

subsection \<open>Teardown\<close>

text \<open>
  C9. Teardown is idempotent: \<open>uninit\<close> releases exactly the frames queued in the two
  pending-frame queues, each as often as it is queued, and leaves both queues empty; a
  second \<open>uninit\<close> right after the first releases nothing and changes nothing.
\<close>

theorem uninit_idempotent:
  "queue_input (priv (uninit s)) = [] \<and> queue_logo (priv (uninit s)) = [] \<and>
   events_of s (uninit s) = map Release (queue_input (priv s)) @ map Release (queue_logo (priv s)) \<and>
   events_of (uninit s) (uninit (uninit s)) = [] \<and>
   uninit (uninit s) = uninit s"
  by (simp add: uninit_eq events_of_def)

text \<open>
  C10. No callback of the filter puts a frame into \<open>queue_input\<close> or \<open>queue_logo\<close>:
  both queues are empty in every reachable state, and \<open>uninit\<close> in a reachable state
  releases nothing.
\<close>

theorem queues_always_empty:
  assumes "reachable s"
  shows "queue_input (priv s) = [] \<and> queue_logo (priv s) = [] \<and> events_of s (uninit s) = []"
proof -
  from assms have "queue_input (priv s) = [] \<and> queue_logo (priv s) = []"
  proof (induction rule: reachable.induct)
    case (fresh s)
    then show ?case by simp
  next
    case (step s s')
    then show ?case using callback_queues by blast
  qed
  then show ?thesis by (simp add: uninit_eq events_of_def)
qed

theorem queues_always_empty_witness:
  "reachable scenario_done \<and> queue_input (priv scenario_done) = [] \<and>
   queue_logo (priv scenario_done) = [] \<and> trace (uninit scenario_done) = trace scenario_done"
proof -
  have "reachable scenario_fresh"
    by (rule reachable.fresh) (simp_all add: scenario_fresh_def tmblock_options_def zeroed_priv_def)
  then have "reachable (snd (init scenario_env scenario_fresh))"
    by (rule reachable.step) (rule callback.by_init)
  then have "reachable scenario_ready"
    unfolding scenario_ready_def by (rule reachable.step) (rule callback.by_config_output)
  then have r: "reachable scenario_done"
    by (rule reachable.step) (rule callback.by_process_frame [OF scenario_run])
  from queues_always_empty [OF r] r show ?thesis
    by (simp add: uninit_eq)
qed

end
